theory Spec2Isabelle
  imports Main
begin

section \<open>The \<open>not_null\<close> wrapper of \<open>include/gsl.h\<close>\<close>

subsection \<open>Handles and errors\<close>

text \<open>
  The template parameter \<open>T\<close> is a pointer or smart pointer: the class asserts statically
  that \<open>nullptr\<close> can be assigned to it, and compares it with \<open>nullptr\<close>. A value of such
  a type is either the null value or refers to an object; \<open>'a\<close> is what identifies the
  object (an address). The comparison \<open>==\<close> of \<open>T\<close> is equality of these values.
\<close>

datatype 'a handle = nullptr | Addr 'a

text \<open>
  A pointer conversion (derived to base, adding \<open>const\<close>, raw pointer to smart pointer)
  sends the null value to the null value and an object to the same object seen at the
  target type.
\<close>

definition pointer_conversion :: "('u \<Rightarrow> 'a) \<Rightarrow> 'u handle \<Rightarrow> 'a handle" where
  "pointer_conversion f = map_handle f"

datatype error = PreconditionViolation

text \<open>
  Modelled from the spec: the macro \<open>Expects\<close> of \<open>gsl_assert.h\<close>, which is not among the
  sources. It evaluates its condition; if the condition is false it raises
  PreconditionViolation, which unwinds out of the caller; if it is true it returns with
  no effect.
\<close>

definition Expects :: "bool \<Rightarrow> error + unit" where
  "Expects condition = (if condition then Inr () else Inl PreconditionViolation)"

subsection \<open>The class\<close>

text \<open>
  The class has the single private member \<open>T ptr_\<close> (line 152); the field is called
  \<open>ptr\<close> here, Isabelle keeping names that end in an underscore for itself.
\<close>

record 'a not_null =
  ptr :: "'a handle"

text \<open>Line 156: \<open>void ensure_invariant() const { Expects(ptr_ != nullptr); }\<close>\<close>

definition ensure_invariant :: "'a not_null \<Rightarrow> error + unit" where
  "ensure_invariant this = Expects (ptr this \<noteq> nullptr)"

text \<open>
  A constructor returns the object it has built, or the error it has thrown, in which
  case there is no object. An assignment operator works on an object that exists before
  and after the call, also when the call throws: it returns the object as the call leaves
  it, and what the call did (returned, or threw an error).
\<close>

type_synonym 'a constructed = "error + 'a not_null"
type_synonym 'a assigned = "'a not_null \<times> (error + unit)"

text \<open>
  Lines 110 to 113, the forwarding constructor
  \<^verbatim>\<open>template<class... U> not_null(U... args):ptr_(std::forward<U>(args)...){ check_args<U...> arg_check; }\<close>
  The member is initialised from the arguments by the constructor or conversion of \<open>T\<close>
  that accepts them, which is the parameter \<open>T_from\<close>. The body declares a local object
  of an empty type and does nothing else. Overload resolution chooses this
  constructor whenever the argument is not of type \<open>T\<close> itself (a \<open>Derived*\<close> given to
  \<open>not_null<Base*>\<close>, an \<open>int*\<close> given to \<open>not_null<std::shared_ptr<int>>\<close>): the
  template then matches the argument exactly, and line 114 only after a conversion.
\<close>

definition not_null_forward :: "('args \<Rightarrow> 'a handle) \<Rightarrow> 'args \<Rightarrow> 'a constructed" where
  "not_null_forward T_from args = Inr \<lparr>ptr = T_from args\<rparr>"

text \<open>
  Line 114: \<open>not_null(T t) : ptr_(t) { ensure_invariant(); }\<close>, chosen for an argument of
  type \<open>T\<close> (a non-template is preferred to a template that matches equally well).
\<close>

definition not_null_T :: "'a handle \<Rightarrow> 'a constructed" where
  "not_null_T t =
     (let this = \<lparr>ptr = t\<rparr> in
      case ensure_invariant this of
        Inl e \<Rightarrow> Inl e
      | Inr _ \<Rightarrow> Inr this)"

text \<open>
  Line 115: \<open>not_null& operator=(const T& t) { ptr_ = t; ensure_invariant(); return *this; }\<close>
  The member is written first and checked afterwards.
\<close>

definition assign_T :: "'a not_null \<Rightarrow> 'a handle \<Rightarrow> 'a assigned" where
  "assign_T this t =
     (let this' = this\<lparr>ptr := t\<rparr> in (this', ensure_invariant this'))"

text \<open>Lines 117 and 118: the defaulted copy constructor and copy assignment.\<close>

definition not_null_copy :: "'a not_null \<Rightarrow> 'a constructed" where
  "not_null_copy other = Inr other"

definition assign_copy :: "'a not_null \<Rightarrow> 'a not_null \<Rightarrow> 'a assigned" where
  "assign_copy this other = (other, Inr ())"

text \<open>Lines 139 to 144: \<open>T get() const { return ptr_; }\<close>, as built without \<open>_MSC_VER\<close>.\<close>

definition get :: "'a not_null \<Rightarrow> 'a handle" where
  "get this = ptr this"

text \<open>
  With \<open>_MSC_VER\<close> the body starts with \<open>__assume(ptr_ != nullptr)\<close>. The hint has no
  effect when its condition holds, and the behaviour of the program is undefined when
  it does not: \<open>None\<close> stands for that.
\<close>

definition get_MSC_VER :: "'a not_null \<Rightarrow> 'a handle option" where
  "get_MSC_VER this = (if ptr this \<noteq> nullptr then Some (ptr this) else None)"

text \<open>
  Lines 146 and 147: \<open>operator T() const\<close> and \<open>T operator->() const\<close>, which call
  \<open>get()\<close>; as built without \<open>_MSC_VER\<close>. On a wrapper that satisfies the invariant the
  two builds of \<open>get()\<close> return the same handle.
\<close>

definition operator_T :: "'a not_null \<Rightarrow> 'a handle" where
  "operator_T this = get this"

definition operator_arrow :: "'a not_null \<Rightarrow> 'a handle" where
  "operator_arrow this = get this"

text \<open>
  Lines 126 to 131, the assignment from a wrapper over a type \<open>U\<close> convertible to \<open>T\<close>:
  \<^verbatim>\<open>ptr_ = other.get(); return *this;\<close>
  The implicit conversion from \<open>U\<close> to \<open>T\<close> that the assignment to \<open>ptr_\<close> applies is the
  parameter \<open>U_to_T\<close>. This is the operator as built without \<open>_MSC_VER\<close>: the call
  \<open>other.get()\<close> is \<open>get\<close>. The build with \<open>_MSC_VER\<close> follows below.
\<close>

definition assign_not_null_U ::
  "('u handle \<Rightarrow> 'a handle) \<Rightarrow> 'a not_null \<Rightarrow> 'u not_null \<Rightarrow> 'a assigned" where
  "assign_not_null_U U_to_T this other = (this\<lparr>ptr := U_to_T (get other)\<rparr>, Inr ())"

text \<open>
  Lines 120 to 124, the constructor from a wrapper over such a type: \<open>{ *this = other; }\<close>
  There is no member initialiser, so \<open>ptr_\<close> is default-initialised before the body runs:
  null for a smart pointer, indeterminate for a raw pointer. The parameter
  \<open>uninitialised\<close> is that value.
\<close>

definition not_null_U ::
  "('u handle \<Rightarrow> 'a handle) \<Rightarrow> 'a handle \<Rightarrow> 'u not_null \<Rightarrow> 'a constructed" where
  "not_null_U U_to_T uninitialised other =
     (case assign_not_null_U U_to_T \<lparr>ptr = uninitialised\<rparr> other of
        (this, Inl e) \<Rightarrow> Inl e
      | (this, Inr _) \<Rightarrow> Inr this)"

text \<open>
  The same two operations as built with \<open>_MSC_VER\<close>, where the call \<open>other.get()\<close> of
  line 129 runs \<open>__assume(ptr_ != nullptr)\<close> on the source wrapper. When the source
  wrapper holds the null pointer the behaviour is undefined (\<open>None\<close>), and nothing is
  said about the target; otherwise the operator stores the converted handle and returns.
\<close>

definition assign_not_null_U_MSC_VER ::
  "('u handle \<Rightarrow> 'a handle) \<Rightarrow> 'a not_null \<Rightarrow> 'u not_null \<Rightarrow> 'a assigned option" where
  "assign_not_null_U_MSC_VER U_to_T this other =
     (case get_MSC_VER other of
        None \<Rightarrow> None
      | Some u \<Rightarrow> Some (this\<lparr>ptr := U_to_T u\<rparr>, Inr ()))"

definition not_null_U_MSC_VER ::
  "('u handle \<Rightarrow> 'a handle) \<Rightarrow> 'a handle \<Rightarrow> 'u not_null \<Rightarrow> 'a constructed option" where
  "not_null_U_MSC_VER U_to_T uninitialised other =
     (case assign_not_null_U_MSC_VER U_to_T \<lparr>ptr = uninitialised\<rparr> other of
        None \<Rightarrow> None
      | Some (this, Inl e) \<Rightarrow> Some (Inl e)
      | Some (this, Inr _) \<Rightarrow> Some (Inr this))"

text \<open>
  Lines 149 and 150: \<open>operator==(const T& rhs)\<close> and \<open>operator!=(const T& rhs)\<close>. In
  \<open>a == b\<close> with two wrappers, \<open>b\<close> reaches the parameter through \<open>operator T()\<close>: the
  expression is \<open>operator_eq a (operator_T b)\<close>.
\<close>

definition operator_eq :: "'a not_null \<Rightarrow> 'a handle \<Rightarrow> bool" where
  "operator_eq this rhs = (ptr this = rhs)"

definition operator_neq :: "'a not_null \<Rightarrow> 'a handle \<Rightarrow> bool" where
  "operator_neq this rhs = (\<not> operator_eq this rhs)"

text \<open>
  Lines 174 to 181, \<open>std::hash<gsl::not_null<T>>\<close>: \<open>return hash<T>{}(value);\<close>
  The hash of the handle type comes from the standard library and is the parameter
  \<open>hash_T\<close>; it takes a \<open>T\<close>, which the wrapper becomes through \<open>operator T()\<close>.
\<close>

definition hash :: "('a handle \<Rightarrow> 's) \<Rightarrow> 'a not_null \<Rightarrow> 's" where
  "hash hash_T value = hash_T (operator_T value)"

text \<open>The invariant of the class: the wrapped handle is not null.\<close>

definition invariant :: "'a not_null \<Rightarrow> bool" where
  "invariant this = (ptr this \<noteq> nullptr)"


section \<open>Properties\<close>

subsection \<open>What each operation does\<close>

lemma Expects_iff: "Expects c = Inr () \<longleftrightarrow> c"
  by (simp add: Expects_def)

lemma ensure_invariant_iff: "ensure_invariant this = Inr () \<longleftrightarrow> invariant this"
  by (simp add: ensure_invariant_def invariant_def Expects_def)

lemma not_null_T_nullptr: "not_null_T nullptr = Inl PreconditionViolation"
  by (simp add: not_null_T_def ensure_invariant_def Expects_def)

lemma not_null_T_Addr: "not_null_T (Addr a) = Inr \<lparr>ptr = Addr a\<rparr>"
  by (simp add: not_null_T_def ensure_invariant_def Expects_def)

lemma not_null_T_invariant: "not_null_T t = Inr this \<Longrightarrow> invariant this"
  by (cases t) (auto simp: not_null_T_nullptr not_null_T_Addr invariant_def)

lemma assign_T_Addr: "assign_T this (Addr a) = (this\<lparr>ptr := Addr a\<rparr>, Inr ())"
  by (simp add: assign_T_def ensure_invariant_def Expects_def)

lemma assign_T_nullptr: "assign_T this nullptr = (this\<lparr>ptr := nullptr\<rparr>, Inl PreconditionViolation)"
  by (simp add: assign_T_def ensure_invariant_def Expects_def)

lemma assign_T_returned_invariant: "assign_T this t = (this', Inr ()) \<Longrightarrow> invariant this'"
  by (cases t) (auto simp: assign_T_nullptr assign_T_Addr invariant_def)

lemma not_null_copy_invariant: "invariant other \<Longrightarrow> not_null_copy other = Inr this \<Longrightarrow> invariant this"
  by (simp add: not_null_copy_def)

lemma assign_copy_invariant: "invariant other \<Longrightarrow> invariant (fst (assign_copy this other))"
  by (simp add: assign_copy_def)

lemma pointer_conversion_nullptr [simp]: "pointer_conversion f nullptr = nullptr"
  by (simp add: pointer_conversion_def)

lemma pointer_conversion_Addr [simp]: "pointer_conversion f (Addr a) = Addr (f a)"
  by (simp add: pointer_conversion_def)

lemma pointer_conversion_eq_nullptr: "pointer_conversion f h = nullptr \<longleftrightarrow> h = nullptr"
  by (cases h) simp_all

text \<open>
  The two operations that take a wrapper over another type keep the invariant when the
  conversion is a pointer conversion and the source wrapper satisfies the invariant.
\<close>

lemma assign_not_null_U_invariant:
  "invariant other \<Longrightarrow> invariant (fst (assign_not_null_U (pointer_conversion f) this other))"
  by (simp add: assign_not_null_U_def invariant_def get_def pointer_conversion_eq_nullptr)

lemma not_null_U_invariant:
  "invariant other \<Longrightarrow> not_null_U (pointer_conversion f) d other = Inr this \<Longrightarrow> invariant this"
  by (auto simp: not_null_U_def assign_not_null_U_def invariant_def get_def
      pointer_conversion_eq_nullptr)

subsection \<open>Construction from a null handle\<close>

text \<open>
  Claim C1: constructing a wrapper from a null handle raises PreconditionViolation,
  whether the null handle is a value of \<open>T\<close> or results from arguments forwarded to
  construct a \<open>T\<close>. The constructor of line 114 does so. The forwarding constructor of
  lines 110 to 113 never calls \<open>ensure_invariant\<close>: given a null \<open>Derived*\<close>, converted to
  \<open>Base*\<close> by the initialisation of the member, it returns a wrapper that holds the null
  pointer.
\<close>

theorem forwarding_constructor_accepts_nullptr:
  "not_null_T (nullptr :: nat handle) = Inl PreconditionViolation \<and>
   not_null_forward (pointer_conversion (\<lambda>derived :: nat. derived)) nullptr
     = Inr \<lparr>ptr = nullptr\<rparr>"
  by (simp add: not_null_T_nullptr not_null_forward_def)

subsection \<open>The invariant\<close>

text \<open>
  Claim C2: after its construction a wrapper never holds the null value. The wrapper
  that the forwarding constructor builds from a null \<open>Derived*\<close> does not satisfy the
  invariant, and neither does a copy of it.
\<close>

theorem forwarding_constructor_breaks_invariant:
  "\<exists>this copy.
     not_null_forward (pointer_conversion (\<lambda>derived :: nat. derived)) nullptr = Inr this \<and>
     \<not> invariant this \<and>
     not_null_copy this = Inr copy \<and> \<not> invariant copy"
  by (simp add: not_null_forward_def not_null_copy_def invariant_def)

subsection \<open>A failed assignment\<close>

text \<open>
  Claim C3: a PreconditionViolation leaves no observable change of state; when the
  assignment of a null handle to an existing wrapper fails, the wrapper holds the value
  it held before. In \<open>operator=(const T&)\<close> the member is overwritten before the check:
  a wrapper that holds the address 1 holds the null pointer after the assignment has
  raised PreconditionViolation.
\<close>

theorem failed_assignment_overwrites:
  "assign_T \<lparr>ptr = Addr (1 :: nat)\<rparr> nullptr = (\<lparr>ptr = nullptr\<rparr>, Inl PreconditionViolation) \<and>
   \<not> invariant (fst (assign_T \<lparr>ptr = Addr (1 :: nat)\<rparr> nullptr))"
  by (simp add: assign_T_nullptr invariant_def)

subsection \<open>Construction from a handle that is not null\<close>

text \<open>
  Claim C4: for every handle \<open>h\<close> that is not null, constructing a wrapper from \<open>h\<close>
  succeeds and \<open>get()\<close> on the wrapper returns \<open>h\<close>. This holds for the constructor that
  takes a \<open>T\<close> and for the forwarding constructor, whose arguments make the handle \<open>h\<close>.
\<close>

theorem construct_then_get:
  assumes "h \<noteq> nullptr"
  shows "(\<exists>this. not_null_T h = Inr this \<and> get this = h) \<and>
         (T_from args = h \<longrightarrow> (\<exists>this. not_null_forward T_from args = Inr this \<and> get this = h))"
proof -
  from assms obtain a where "h = Addr a"
    by (cases h) simp_all
  then show ?thesis
    by (simp add: not_null_T_Addr not_null_forward_def get_def)
qed

theorem construct_then_get_witness:
  "Addr (42 :: nat) \<noteq> nullptr \<and>
   (\<exists>this. not_null_T (Addr (42 :: nat)) = Inr this \<and> get this = Addr 42) \<and>
   (\<exists>this. not_null_forward (pointer_conversion (\<lambda>derived :: nat. derived)) (Addr 42) = Inr this \<and>
      get this = Addr 42)"
  using construct_then_get [of "Addr (42 :: nat)" "pointer_conversion (\<lambda>derived :: nat. derived)" "Addr 42"]
  by simp

subsection \<open>Equality and hashing\<close>

text \<open>
  Claim C5: two wrappers \<open>a\<close> and \<open>b\<close> over the same handle type are equal exactly when
  \<open>a.get() == b.get()\<close>; equal wrappers have equal hashes; the hash of a wrapper is
  the hash of the handle it wraps.
\<close>

theorem equality_and_hash:
  "(operator_eq a (operator_T b) \<longleftrightarrow> get a = get b) \<and>
   (operator_neq a (operator_T b) \<longleftrightarrow> get a \<noteq> get b) \<and>
   (operator_eq a (operator_T b) \<longrightarrow> hash hash_T a = hash hash_T b) \<and>
   hash hash_T a = hash_T (get a)"
  by (simp add: operator_eq_def operator_neq_def operator_T_def get_def hash_def)

theorem equality_and_hash_witness:
  "operator_eq \<lparr>ptr = Addr (7 :: nat)\<rparr> (operator_T \<lparr>ptr = Addr 7\<rparr>) \<and>
   hash (case_handle (0 :: nat) Suc) \<lparr>ptr = Addr 7\<rparr> = hash (case_handle 0 Suc) \<lparr>ptr = Addr 7\<rparr> \<and>
   hash (case_handle (0 :: nat) Suc) \<lparr>ptr = Addr 7\<rparr> = 8 \<and>
   \<not> operator_eq \<lparr>ptr = Addr (7 :: nat)\<rparr> (operator_T \<lparr>ptr = Addr 8\<rparr>)"
  using equality_and_hash [of "\<lparr>ptr = Addr (7 :: nat)\<rparr>" "\<lparr>ptr = Addr 7\<rparr>" "case_handle (0 :: nat) Suc"]
    equality_and_hash [of "\<lparr>ptr = Addr (7 :: nat)\<rparr>" "\<lparr>ptr = Addr 8\<rparr>" "case_handle (0 :: nat) Suc"]
  by (simp add: get_def)

subsection \<open>Conversion between wrappers\<close>

text \<open>
  Claim C6: converting a wrapper over a handle type \<open>U\<close> that converts to \<open>T\<close> into a
  wrapper over \<open>T\<close>, by the converting constructor or by the converting assignment,
  gives a wrapper whose \<open>get()\<close> is the \<open>get()\<close> of the original after the implicit
  conversion from \<open>U\<close> to \<open>T\<close>.
\<close>

theorem conversion_preserves_value:
  "(\<exists>this. not_null_U U_to_T uninitialised other = Inr this \<and>
           get this = U_to_T (get other)) \<and>
   get (fst (assign_not_null_U U_to_T target other)) = U_to_T (get other)"
  by (simp add: not_null_U_def assign_not_null_U_def get_def)

text \<open>
  Claim C10, as stated: for every source wrapper, the converting constructor and the
  converting assignment copy \<open>other.get()\<close> without a null check, never raise
  PreconditionViolation and are deterministic. Built with \<open>_MSC_VER\<close> this fails on a
  source wrapper that holds the null pointer, which the forwarding constructor builds:
  \<open>other.get()\<close> then runs a false \<open>__assume\<close>, and the behaviour is undefined.
\<close>

theorem conversion_of_null_wrapper_undefined:
  "not_null_forward (pointer_conversion (\<lambda>derived :: nat. derived)) nullptr
     = Inr \<lparr>ptr = nullptr\<rparr> \<and>
   assign_not_null_U_MSC_VER (pointer_conversion (\<lambda>derived :: nat. derived))
     \<lparr>ptr = Addr 1\<rparr> \<lparr>ptr = nullptr\<rparr> = None \<and>
   not_null_U_MSC_VER (pointer_conversion (\<lambda>derived :: nat. derived))
     (Addr 1) \<lparr>ptr = nullptr\<rparr> = None"
  by (simp add: not_null_forward_def not_null_U_MSC_VER_def assign_not_null_U_MSC_VER_def
      get_MSC_VER_def)

text \<open>
  Claim C10, amended: the converting constructor and the converting assignment contain
  no null check and never raise PreconditionViolation. Built without \<open>_MSC_VER\<close>, for
  every source wrapper they store \<open>other.get()\<close>, converted, and return, and the result
  is a function of the source wrapper alone (the value the member had before plays no
  part). Built with \<open>_MSC_VER\<close>, they do exactly the same for every source wrapper that
  satisfies the invariant, and their behaviour is undefined for a source wrapper that
  holds the null pointer.
\<close>

theorem conversion_never_checks:
  "assign_not_null_U U_to_T target other = (target\<lparr>ptr := U_to_T (get other)\<rparr>, Inr ()) \<and>
   not_null_U U_to_T uninitialised other = Inr \<lparr>ptr = U_to_T (get other)\<rparr> \<and>
   not_null_U U_to_T uninitialised other \<noteq> Inl PreconditionViolation \<and>
   snd (assign_not_null_U U_to_T target other) \<noteq> Inl PreconditionViolation \<and>
   not_null_U U_to_T uninitialised other = not_null_U U_to_T uninitialised' other \<and>
   (invariant other \<longrightarrow>
      assign_not_null_U_MSC_VER U_to_T target other
        = Some (assign_not_null_U U_to_T target other) \<and>
      not_null_U_MSC_VER U_to_T uninitialised other
        = Some (not_null_U U_to_T uninitialised other)) \<and>
   (\<not> invariant other \<longrightarrow>
      assign_not_null_U_MSC_VER U_to_T target other = None \<and>
      not_null_U_MSC_VER U_to_T uninitialised other = None) \<and>
   assign_not_null_U_MSC_VER U_to_T target other \<noteq> Some (target', Inl PreconditionViolation) \<and>
   not_null_U_MSC_VER U_to_T uninitialised other \<noteq> Some (Inl PreconditionViolation)"
proof -
  have plain: "assign_not_null_U U_to_T target other
      = (target\<lparr>ptr := U_to_T (get other)\<rparr>, Inr ())"
    "\<And>d. not_null_U U_to_T d other = Inr \<lparr>ptr = U_to_T (get other)\<rparr>"
    by (simp_all add: not_null_U_def assign_not_null_U_def)
  have msc: "get_MSC_VER other = (if invariant other then Some (get other) else None)"
    by (simp add: get_MSC_VER_def invariant_def get_def)
  have msc_assign: "\<And>t. assign_not_null_U_MSC_VER U_to_T t other
      = (if invariant other then Some (assign_not_null_U U_to_T t other) else None)"
    by (simp add: assign_not_null_U_MSC_VER_def msc assign_not_null_U_def)
  have msc_ctor: "not_null_U_MSC_VER U_to_T uninitialised other
      = (if invariant other then Some (not_null_U U_to_T uninitialised other) else None)"
    by (simp add: not_null_U_MSC_VER_def msc_assign not_null_U_def assign_not_null_U_def)
  show ?thesis
    by (simp add: plain msc_assign msc_ctor)
qed

theorem conversion_never_checks_witness:
  "invariant \<lparr>ptr = Addr (5 :: nat)\<rparr> \<and>
   assign_not_null_U_MSC_VER (pointer_conversion Suc) \<lparr>ptr = Addr 1\<rparr> \<lparr>ptr = Addr 5\<rparr>
     = Some (\<lparr>ptr = Addr 6\<rparr>, Inr ()) \<and>
   not_null_U_MSC_VER (pointer_conversion Suc) nullptr \<lparr>ptr = Addr 5\<rparr>
     = Some (Inr \<lparr>ptr = Addr 6\<rparr>) \<and>
   \<not> invariant \<lparr>ptr = (nullptr :: nat handle)\<rparr> \<and>
   assign_not_null_U (pointer_conversion Suc) \<lparr>ptr = Addr 1\<rparr> \<lparr>ptr = nullptr\<rparr>
     = (\<lparr>ptr = nullptr\<rparr>, Inr ()) \<and>
   assign_not_null_U_MSC_VER (pointer_conversion Suc) \<lparr>ptr = Addr 1\<rparr> \<lparr>ptr = nullptr\<rparr> = None \<and>
   not_null_U_MSC_VER (pointer_conversion Suc) nullptr \<lparr>ptr = nullptr\<rparr> = None"
proof -
  have inv: "invariant \<lparr>ptr = Addr (5 :: nat)\<rparr>"
    and ninv: "\<not> invariant \<lparr>ptr = (nullptr :: nat handle)\<rparr>"
    by (simp_all add: invariant_def)
  from inv ninv
    conversion_never_checks [of "pointer_conversion Suc" "\<lparr>ptr = Addr 1\<rparr>"
      "\<lparr>ptr = Addr (5 :: nat)\<rparr>" nullptr nullptr "\<lparr>ptr = Addr 1\<rparr>"]
    conversion_never_checks [of "pointer_conversion Suc" "\<lparr>ptr = Addr 1\<rparr>"
      "\<lparr>ptr = (nullptr :: nat handle)\<rparr>" nullptr nullptr "\<lparr>ptr = Addr 1\<rparr>"]
  show ?thesis
    by (simp add: get_def)
qed

subsection \<open>Access\<close>

text \<open>
  Claim C7: on a wrapper that satisfies the invariant, \<open>get()\<close> never fails and returns
  the wrapped handle, changing nothing; the conversion to the handle type and
  \<open>operator->\<close> return what \<open>get()\<close> returns. The three are \<open>const\<close> members without a
  check, so they are functions of the wrapper into the handle type. The invariant is
  needed for the build with \<open>_MSC_VER\<close> alone, where it makes the hint of \<open>get()\<close> true.
\<close>

theorem access_returns_wrapped_handle:
  assumes "invariant this"
  shows "get this = ptr this \<and> get_MSC_VER this = Some (get this) \<and>
         operator_T this = get this \<and> operator_arrow this = get this \<and>
         get this \<noteq> nullptr"
  using assms
  by (simp add: invariant_def get_def get_MSC_VER_def operator_T_def operator_arrow_def)

theorem access_returns_wrapped_handle_witness:
  "invariant \<lparr>ptr = Addr (42 :: nat)\<rparr> \<and>
   get \<lparr>ptr = Addr (42 :: nat)\<rparr> = Addr 42 \<and>
   get_MSC_VER \<lparr>ptr = Addr (42 :: nat)\<rparr> = Some (Addr 42) \<and>
   operator_T \<lparr>ptr = Addr (42 :: nat)\<rparr> = Addr 42 \<and>
   operator_arrow \<lparr>ptr = Addr (42 :: nat)\<rparr> = Addr 42"
proof -
  have inv: "invariant \<lparr>ptr = Addr (42 :: nat)\<rparr>"
    by (simp add: invariant_def)
  from access_returns_wrapped_handle [OF inv] inv show ?thesis
    by simp
qed

end
